theory Spec2Isabelle
  imports Main
begin

section \<open>JavaScript values shared by the hooks\<close>

text \<open>
  A value that reaches a \<^verbatim>\<open>catch\<close> clause. The hooks only ask whether it is
  \<^verbatim>\<open>instanceof Error\<close> and, if so, read its \<^verbatim>\<open>message\<close>; the class name is kept so
  that \<^verbatim>\<open>new Error(m)\<close> and, say, the \<^verbatim>\<open>TypeError\<close> of a failed \<^verbatim>\<open>fetch\<close> stay
  different values.
\<close>

datatype thrown =
    JsError string string   \<comment> \<open>class name and message of an \<^verbatim>\<open>Error\<close> instance\<close>
  | NonError                \<comment> \<open>any thrown value that is not an \<^verbatim>\<open>Error\<close>\<close>

definition new_Error :: "string \<Rightarrow> thrown" where
  \<comment> \<open>\<^verbatim>\<open>new Error(message)\<close>\<close>
  "new_Error m = JsError ''Error'' m"

definition message_or :: "thrown \<Rightarrow> string \<Rightarrow> string" where
  \<comment> \<open>\<^verbatim>\<open>err instanceof Error ? err.message : fallback\<close>\<close>
  "message_or err fallback = (case err of JsError c m \<Rightarrow> m | NonError \<Rightarrow> fallback)"

definition or_else :: "string option \<Rightarrow> string \<Rightarrow> string" where
  \<comment> \<open>\<^verbatim>\<open>value || fallback\<close> on an optional string: absent and empty are both falsy\<close>
  "or_else v fallback = (case v of None \<Rightarrow> fallback | Some s \<Rightarrow> if s = [] then fallback else s)"

text \<open>
  What one \<^verbatim>\<open>fetch\<close> call and the following \<^verbatim>\<open>response.json()\<close> can yield. The
  payload type \<open>'a\<close> is the part of a 2xx body that the caller reads; of a non-2xx body
  the callers read only the \<^verbatim>\<open>message\<close> field. A \<^verbatim>\<open>json()\<close> that throws is the
  \<open>Inl\<close> of the body.
\<close>

datatype 'a fetch_outcome =
    Fetch_Rejected thrown                       \<comment> \<open>no response obtained: \<^verbatim>\<open>fetch\<close> rejects\<close>
  | Resp_NotOk nat "thrown + string option"     \<comment> \<open>HTTP status with \<^verbatim>\<open>response.ok\<close> false; \<^verbatim>\<open>data.message\<close>\<close>
  | Resp_Ok "thrown + 'a"                       \<comment> \<open>\<^verbatim>\<open>response.ok\<close> true\<close>

type_synonym localStorage = "string \<rightharpoonup> string"

definition getItem :: "localStorage \<Rightarrow> string \<Rightarrow> string option" where
  "getItem ls k = ls k"

definition removeItem :: "localStorage \<Rightarrow> string \<Rightarrow> localStorage" where
  "removeItem ls k = ls(k := None)"

section \<open>Session store (the AuthProvider of use-auth)\<close>

record user =
  u_id :: string      \<comment> \<open>\<^verbatim>\<open>id\<close>\<close>
  u_email :: string   \<comment> \<open>\<^verbatim>\<open>email\<close>\<close>
  u_name :: string    \<comment> \<open>\<^verbatim>\<open>name\<close>\<close>

text \<open>
  The provider's two state cells together with the browser's \<^verbatim>\<open>localStorage\<close>, which
  holds the token under the key \<^verbatim>\<open>auth_token\<close>.
\<close>

record auth =
  storage :: localStorage
  user :: "user option"
  isAuthenticated :: bool

definition initial_auth :: "localStorage \<Rightarrow> auth" where
  \<comment> \<open>\<^verbatim>\<open>useState<User | null>(null)\<close>, \<^verbatim>\<open>useState(false)\<close>\<close>
  "initial_auth ls = \<lparr>storage = ls, user = None, isAuthenticated = False\<rparr>"

text \<open>
  \<^verbatim>\<open>validateToken\<close>: the whole body is inside \<^verbatim>\<open>try\<close>, and the \<^verbatim>\<open>catch\<close> logs and
  removes the token, so the returned promise always resolves. The second component is
  what the promise settles with.
\<close>

definition validateToken :: "string \<Rightarrow> user fetch_outcome \<Rightarrow> auth \<Rightarrow> auth \<times> (thrown + unit)" where
  "validateToken token out a =
     (case out of
        Fetch_Rejected e \<Rightarrow> (a\<lparr>storage := removeItem (storage a) ''auth_token''\<rparr>, Inr ())
      | Resp_NotOk st body \<Rightarrow> (a\<lparr>storage := removeItem (storage a) ''auth_token''\<rparr>, Inr ())
      | Resp_Ok body \<Rightarrow>
          (case body of
             Inl e \<Rightarrow> (a\<lparr>storage := removeItem (storage a) ''auth_token''\<rparr>, Inr ())
           | Inr userData \<Rightarrow> (a\<lparr>user := Some userData, isAuthenticated := True\<rparr>, Inr ())))"

definition on_mount :: "user fetch_outcome \<Rightarrow> auth \<Rightarrow> auth \<times> (thrown + unit)" where
  \<comment> \<open>the mount effect: validate only when a token is stored\<close>
  "on_mount out a =
     (case getItem (storage a) ''auth_token'' of
        None \<Rightarrow> (a, Inr ())
      | Some token \<Rightarrow> if token = [] then (a, Inr ()) else validateToken token out a)"

definition logout :: "auth \<Rightarrow> auth" where
  "logout a = a\<lparr>storage := removeItem (storage a) ''auth_token'', user := None,
                isAuthenticated := False\<rparr>"

section \<open>Job client (the useAnimation hook)\<close>

text \<open>
  The \<^verbatim>\<open>Animation\<close> interface of the hook. Field names that other records also use
  carry the prefix \<open>a_\<close>: \<open>a_id\<close> is \<^verbatim>\<open>_id\<close>, \<open>a_status\<close> is \<^verbatim>\<open>status\<close> (a string on the
  wire), \<open>a_error\<close> is \<^verbatim>\<open>error\<close>.
\<close>

record animation =
  a_id :: string
  user_id :: string
  prompt :: string
  a_status :: string
  video_path :: "string option"
  a_error :: "string option"
  created_at :: string
  updated_at :: string

text \<open>The hook's three state cells; \<open>h_error\<close> is the cell \<^verbatim>\<open>error\<close>.\<close>

record hook =
  animations :: "animation list"
  loading :: bool
  h_error :: "string option"

definition getToken :: "localStorage \<Rightarrow> thrown + string" where
  "getToken ls =
     (case getItem ls ''auth_token'' of
        None \<Rightarrow> Inl (new_Error ''Not authenticated'')
      | Some token \<Rightarrow> if token = [] then Inl (new_Error ''Not authenticated'') else Inr token)"

text \<open>
  Every operation takes the session it reads (\<^verbatim>\<open>isAuthenticated\<close> from the auth context,
  the token from \<^verbatim>\<open>localStorage\<close>), the outcome of its one \<^verbatim>\<open>fetch\<close>, and the hook state;
  it returns the new hook state and what its promise settles with (\<open>Inl\<close>: rejected).
  The authentication check comes before the \<^verbatim>\<open>try\<close>, so it throws without touching the
  state.
\<close>

definition generateAnimation ::
  "auth \<Rightarrow> string fetch_outcome \<Rightarrow> hook \<Rightarrow> hook \<times> (thrown + string)" where
  "generateAnimation a out h =
     (if \<not> isAuthenticated a then (h, Inl (new_Error ''Not authenticated''))
      else
        let h1 = h\<lparr>loading := True, h_error := None\<rparr>;
            tried =
              (case getToken (storage a) of
                 Inl e \<Rightarrow> Inl e
               | Inr token \<Rightarrow>
                   (case out of
                      Fetch_Rejected e \<Rightarrow> Inl e
                    | Resp_NotOk st body \<Rightarrow>
                        (case body of
                           Inl e \<Rightarrow> Inl e
                         | Inr m \<Rightarrow> Inl (new_Error (or_else m ''Failed to generate animation'')))
                    | Resp_Ok body \<Rightarrow> body))
        in case tried of
             Inl err \<Rightarrow>
               (h1\<lparr>h_error := Some (message_or err ''Failed to generate animation''),
                    loading := False\<rparr>, Inl err)
           | Inr animation_id \<Rightarrow> (h1\<lparr>loading := False\<rparr>, Inr animation_id))"

definition checkStatus ::
  "auth \<Rightarrow> animation fetch_outcome \<Rightarrow> hook \<Rightarrow> hook \<times> (thrown + animation)" where
  "checkStatus a out h =
     (if \<not> isAuthenticated a then (h, Inl (new_Error ''Not authenticated''))
      else
        let tried =
              (case getToken (storage a) of
                 Inl e \<Rightarrow> Inl e
               | Inr token \<Rightarrow>
                   (case out of
                      Fetch_Rejected e \<Rightarrow> Inl e
                    | Resp_NotOk st body \<Rightarrow>
                        (case body of
                           Inl e \<Rightarrow> Inl e
                         | Inr m \<Rightarrow> Inl (new_Error (or_else m ''Failed to check animation status'')))
                    | Resp_Ok body \<Rightarrow> body))
        in case tried of
             Inl err \<Rightarrow>
               (h\<lparr>h_error := Some (message_or err ''Failed to check animation status'')\<rparr>, Inl err)
           | Inr data \<Rightarrow> (h, Inr data))"

definition listAnimations ::
  "auth \<Rightarrow> animation list fetch_outcome \<Rightarrow> hook \<Rightarrow> hook \<times> (thrown + unit)" where
  "listAnimations a out h =
     (if \<not> isAuthenticated a then (h, Inl (new_Error ''Not authenticated''))
      else
        let h1 = h\<lparr>loading := True, h_error := None\<rparr>;
            tried =
              (case getToken (storage a) of
                 Inl e \<Rightarrow> Inl e
               | Inr token \<Rightarrow>
                   (case out of
                      Fetch_Rejected e \<Rightarrow> Inl e
                    | Resp_NotOk st body \<Rightarrow>
                        (case body of
                           Inl e \<Rightarrow> Inl e
                         | Inr m \<Rightarrow> Inl (new_Error (or_else m ''Failed to list animations'')))
                    | Resp_Ok body \<Rightarrow> body))
        in case tried of
             Inl err \<Rightarrow>
               (h1\<lparr>h_error := Some (message_or err ''Failed to list animations''),
                    loading := False\<rparr>, Inr ())
           | Inr data_animations \<Rightarrow>
               (h1\<lparr>animations := data_animations, loading := False\<rparr>, Inr ()))"

text \<open>
  \<^verbatim>\<open>deleteAnimation\<close> does not read the body of a 2xx response, so its payload is
  \<open>unit\<close> and a 2xx response always succeeds.
\<close>

definition deleteAnimation ::
  "auth \<Rightarrow> string \<Rightarrow> unit fetch_outcome \<Rightarrow> hook \<Rightarrow> hook \<times> (thrown + unit)" where
  "deleteAnimation a animationId out h =
     (if \<not> isAuthenticated a then (h, Inl (new_Error ''Not authenticated''))
      else
        let h1 = h\<lparr>loading := True, h_error := None\<rparr>;
            tried =
              (case getToken (storage a) of
                 Inl e \<Rightarrow> Inl e
               | Inr token \<Rightarrow>
                   (case out of
                      Fetch_Rejected e \<Rightarrow> Inl e
                    | Resp_NotOk st body \<Rightarrow>
                        (case body of
                           Inl e \<Rightarrow> Inl e
                         | Inr m \<Rightarrow> Inl (new_Error (or_else m ''Failed to delete animation'')))
                    | Resp_Ok body \<Rightarrow> Inr ()))
        in case tried of
             Inl err \<Rightarrow>
               (h1\<lparr>h_error := Some (message_or err ''Failed to delete animation''),
                    loading := False\<rparr>, Inl err)
           | Inr u \<Rightarrow>
               (h1\<lparr>animations := filter (\<lambda>x. a_id x \<noteq> animationId) (animations h1),
                    loading := False\<rparr>, Inr ()))"

definition getAnimation ::
  "auth \<Rightarrow> animation fetch_outcome \<Rightarrow> hook \<Rightarrow> hook \<times> (thrown + animation)" where
  "getAnimation a out h =
     (if \<not> isAuthenticated a then (h, Inl (new_Error ''Not authenticated''))
      else
        let tried =
              (case getToken (storage a) of
                 Inl e \<Rightarrow> Inl e
               | Inr token \<Rightarrow>
                   (case out of
                      Fetch_Rejected e \<Rightarrow> Inl e
                    | Resp_NotOk st body \<Rightarrow>
                        (case body of
                           Inl e \<Rightarrow> Inl e
                         | Inr m \<Rightarrow> Inl (new_Error (or_else m ''Failed to get animation'')))
                    | Resp_Ok body \<Rightarrow> body))
        in case tried of
             Inl err \<Rightarrow>
               (h\<lparr>h_error := Some (message_or err ''Failed to get animation'')\<rparr>, Inl err)
           | Inr data \<Rightarrow> (h, Inr data))"

section \<open>Chat service\<close>

text \<open>
  \<^verbatim>\<open>GenerateAnimationResponse\<close>; its optional \<^verbatim>\<open>error\<close> field is read nowhere and is
  left out.
\<close>

record GenerateAnimationResponse =
  message :: string
  animationUrl :: "string option"

text \<open>
  \<^verbatim>\<open>ChatService.sendMessage\<close> parses the body before it looks at \<^verbatim>\<open>response.ok\<close>; its
  \<^verbatim>\<open>catch\<close> logs and rethrows.
\<close>

definition chatService_sendMessage ::
  "GenerateAnimationResponse fetch_outcome \<Rightarrow> thrown + GenerateAnimationResponse" where
  "chatService_sendMessage out =
     (case out of
        Fetch_Rejected e \<Rightarrow> Inl e
      | Resp_NotOk st body \<Rightarrow>
          (case body of
             Inl e \<Rightarrow> Inl e
           | Inr m \<Rightarrow> Inl (new_Error (or_else m ''Failed to generate animation'')))
      | Resp_Ok body \<Rightarrow> body)"


definition chatService_getChatHistory :: "'m list fetch_outcome \<Rightarrow> thrown + 'm list" where
  \<comment> \<open>\<^verbatim>\<open>ChatService.getChatHistory\<close>: same shape, returns \<^verbatim>\<open>data.messages\<close>\<close>
  "chatService_getChatHistory out =
     (case out of
        Fetch_Rejected e \<Rightarrow> Inl e
      | Resp_NotOk st body \<Rightarrow>
          (case body of
             Inl e \<Rightarrow> Inl e
           | Inr m \<Rightarrow> Inl (new_Error (or_else m ''Failed to fetch chat history'')))
      | Resp_Ok body \<Rightarrow> body)"

section \<open>Chat orchestrator (the ChatProvider of use-chat)\<close>

datatype role = User | Assistant

datatype message_status = M_pending | M_generating | M_completed | M_error

text \<open>
  \<^verbatim>\<open>ChatMessage\<close>: \<open>m_id\<close> is \<^verbatim>\<open>id\<close>, \<open>m_status\<close> the optional \<^verbatim>\<open>status\<close>, \<open>m_animationUrl\<close>
  the optional \<^verbatim>\<open>animationUrl\<close>; \<open>timestamp\<close> is the clock reading of \<^verbatim>\<open>new Date()\<close>.
\<close>

record ChatMessage =
  m_id :: string
  role :: role
  content :: string
  timestamp :: nat
  m_status :: "message_status option"
  m_animationUrl :: "string option"

record chat =
  messages :: "ChatMessage list"
  isLoading :: bool

definition with_status :: "string \<Rightarrow> message_status \<Rightarrow> ChatMessage \<Rightarrow> ChatMessage" where
  \<comment> \<open>the function mapped over \<^verbatim>\<open>prev\<close>:
      \<^verbatim>\<open>msg => msg.id === userMessage.id ? { ...msg, status } : msg\<close>\<close>
  "with_status uid st msg = (if m_id msg = uid then msg\<lparr>m_status := Some st\<rparr> else msg)"

text \<open>
  \<^verbatim>\<open>sendMessage\<close> runs in two pieces. Up to \<^verbatim>\<open>await chatService.sendMessage\<close> it is
  synchronous: it throws or appends the user's message (\<open>input\<close> is the argument
  \<^verbatim>\<open>content\<close>); \<open>uuid\<close> and \<open>now\<close> are the results
  of \<^verbatim>\<open>uuidv4()\<close> and \<^verbatim>\<open>new Date()\<close>. When the backend call settles it resumes on the
  transcript as it is by then, since both branches update through \<^verbatim>\<open>prev => ...\<close>.
\<close>

definition sendMessage_begin ::
  "auth \<Rightarrow> string \<Rightarrow> string \<Rightarrow> nat \<Rightarrow> chat \<Rightarrow> thrown + (ChatMessage \<times> chat)" where
  "sendMessage_begin a input uuid now c =
     (if \<not> isAuthenticated a \<or> user a = None
      then Inl (new_Error ''Must be authenticated to send messages'')
      else
        case getItem (storage a) ''auth_token'' of
          None \<Rightarrow> Inl (new_Error ''No authentication token found'')
        | Some token \<Rightarrow>
            if token = [] then Inl (new_Error ''No authentication token found'')
            else
              let userMessage = \<lparr>m_id = uuid, role = User, content = input, timestamp = now,
                                 m_status = Some M_pending, m_animationUrl = None\<rparr>
              in Inr (userMessage,
                      c\<lparr>messages := messages c @ [userMessage], isLoading := True\<rparr>))"

definition sendMessage_resume ::
  "ChatMessage \<Rightarrow> thrown + GenerateAnimationResponse \<Rightarrow> string \<Rightarrow> nat \<Rightarrow> chat \<Rightarrow> chat" where
  "sendMessage_resume userMessage settled uuid now c =
     (case settled of
        Inr response \<Rightarrow>
          let assistantMessage = \<lparr>m_id = uuid, role = Assistant, content = message response,
                                  timestamp = now, m_status = Some M_completed,
                                  m_animationUrl = animationUrl response\<rparr>;
              updatedMessages = map (with_status (m_id userMessage) M_completed) (messages c)
          in c\<lparr>messages := updatedMessages @ [assistantMessage], isLoading := False\<rparr>
      | Inl err \<Rightarrow>
          let c1 = c\<lparr>messages := map (with_status (m_id userMessage) M_error) (messages c)\<rparr>;
              errorMessage = \<lparr>m_id = uuid, role = Assistant,
                 content = ''Sorry, I encountered an error while generating the animation. Please try again.'',
                 timestamp = now, m_status = Some M_error, m_animationUrl = None\<rparr>
          in c1\<lparr>messages := messages c1 @ [errorMessage], isLoading := False\<rparr>)"

text \<open>One call of \<^verbatim>\<open>sendMessage\<close> with nothing else running in between.\<close>

definition sendMessage ::
  "auth \<Rightarrow> string \<Rightarrow> string \<Rightarrow> nat \<Rightarrow> GenerateAnimationResponse fetch_outcome \<Rightarrow> string \<Rightarrow> nat
     \<Rightarrow> chat \<Rightarrow> chat \<times> (thrown + unit)" where
  "sendMessage a input uuid1 now1 out uuid2 now2 c =
     (case sendMessage_begin a input uuid1 now1 c of
        Inl err \<Rightarrow> (c, Inl err)
      | Inr (userMessage, c1) \<Rightarrow>
          (sendMessage_resume userMessage (chatService_sendMessage out) uuid2 now2 c1, Inr ()))"

definition clearMessages :: "chat \<Rightarrow> chat" where
  "clearMessages c = c\<lparr>messages := []\<rparr>"

definition loadChatHistory :: "ChatMessage list fetch_outcome \<Rightarrow> chat \<Rightarrow> chat" where
  \<comment> \<open>\<^verbatim>\<open>setMessages(history)\<close>, or only a log line when the service throws\<close>
  "loadChatHistory out c =
     (case chatService_getChatHistory out of
        Inr history \<Rightarrow> c\<lparr>messages := history\<rparr>
      | Inl err \<Rightarrow> c)"

text \<open>
  The steps by which the provider writes the transcript apart from \<^verbatim>\<open>clearMessages\<close> and
  the history load: the two pieces of any number of \<^verbatim>\<open>sendMessage\<close> calls, in whatever
  order they interleave.
\<close>

datatype send_step =
    Begin auth string string nat
  | Resume ChatMessage "thrown + GenerateAnimationResponse" string nat

fun apply_step :: "send_step \<Rightarrow> chat \<Rightarrow> chat" where
  "apply_step (Begin a input uuid now) c =
     (case sendMessage_begin a input uuid now c of Inl err \<Rightarrow> c | Inr (userMessage, c1) \<Rightarrow> c1)"
| "apply_step (Resume userMessage settled uuid now) c =
     sendMessage_resume userMessage settled uuid now c"

fun send_steps :: "send_step list \<Rightarrow> chat \<Rightarrow> chat" where
  "send_steps [] c = c"
| "send_steps (x # xs) c = send_steps xs (apply_step x c)"

definition same_but_status :: "ChatMessage \<Rightarrow> ChatMessage \<Rightarrow> bool" where
  "same_but_status old new = (new\<lparr>m_status := m_status old\<rparr> = old)"

definition kept_in_order :: "ChatMessage list \<Rightarrow> ChatMessage list \<Rightarrow> bool" where
  \<comment> \<open>the old entries are the first entries of the new transcript, in the same order and
      equal up to their status\<close>
  "kept_in_order old new =
     (length old \<le> length new \<and> list_all2 same_but_status old (take (length old) new))"

section \<open>Job poller (the polling effect of AnimationGenerator)\<close>

datatype ComponentStatus = S_idle | S_generating | S_completed | S_error

definition mapAnimationStatus :: "string \<Rightarrow> ComponentStatus" where
  "mapAnimationStatus animationStatus =
     (if animationStatus = ''pending'' \<or> animationStatus = ''generating'' then S_generating
      else if animationStatus = ''completed'' then S_completed
      else if animationStatus = ''error'' then S_error
      else S_idle)"

text \<open>
  The values of \<^verbatim>\<open>currentAnimationId\<close> and \<^verbatim>\<open>status\<close> that one run of the effect
  closes over; its \<^verbatim>\<open>pollStatus\<close> sees these and not the current ones.
\<close>

type_synonym closure = "string option \<times> ComponentStatus"

text \<open>
  The optional prop \<^verbatim>\<open>onAnimationComplete\<close>: \<open>None\<close> when the parent gives none; otherwise
  what a call with the given id does, \<open>None\<close> for a normal return and \<open>Some e\<close> when it
  throws \<open>e\<close>.
\<close>

type_synonym callback = "(string \<Rightarrow> thrown option) option"

text \<open>
  The component's state cells \<open>currentAnimationId\<close>, \<open>status\<close>, \<open>error\<close>, and what the
  polling effect adds to them at run time:
  \<^item> \<open>mounted\<close>: the component is still on the page (React drops the state updates of a
    component that is not);
  \<^item> \<open>effect_deps\<close>: the closure of the effect that ran last, which React compares with
    the current values to decide whether the effect runs again;
  \<^item> \<open>interval\<close>: the timer made by \<^verbatim>\<open>setInterval\<close> and not yet cleared, with the closure
    of the \<^verbatim>\<open>pollStatus\<close> it calls;
  \<^item> \<open>in_flight\<close>: the calls of \<^verbatim>\<open>pollStatus\<close> suspended at \<^verbatim>\<open>await checkStatus(...)\<close>,
    each with the \<^verbatim>\<open>currentAnimationId\<close> of its closure;
  \<^item> \<open>polls_started\<close>: how many times \<^verbatim>\<open>checkStatus\<close> has been called;
  \<^item> \<open>completions\<close>: the arguments of the calls of \<^verbatim>\<open>onAnimationComplete\<close>, in order.
\<close>

record generator =
  currentAnimationId :: "string option"
  status :: ComponentStatus
  error :: "string option"
  mounted :: bool
  effect_deps :: closure
  interval :: "closure option"
  in_flight :: "string list"
  polls_started :: nat
  completions :: "string list"

definition setStatus :: "ComponentStatus \<Rightarrow> generator \<Rightarrow> generator" where
  "setStatus v s = (if mounted s then s\<lparr>status := v\<rparr> else s)"

definition setError :: "string option \<Rightarrow> generator \<Rightarrow> generator" where
  "setError v s = (if mounted s then s\<lparr>error := v\<rparr> else s)"

definition setCurrentAnimationId :: "string option \<Rightarrow> generator \<Rightarrow> generator" where
  "setCurrentAnimationId v s = (if mounted s then s\<lparr>currentAnimationId := v\<rparr> else s)"

text \<open>
  The effect body makes a new closure and, when generating, a new timer that calls the
  \<^verbatim>\<open>pollStatus\<close> of this closure. It clears nothing: a timer that is still live stays
  live. (React runs the cleanup of the previous effect first, so there is none then.)
\<close>

definition effect :: "generator \<Rightarrow> generator" where
  "effect s =
     s\<lparr>effect_deps := (currentAnimationId s, status s),
       interval := (if status s = S_generating then Some (currentAnimationId s, status s)
                    else interval s)\<rparr>"

definition cleanup :: "generator \<Rightarrow> generator" where
  \<comment> \<open>the function the effect returns: \<^verbatim>\<open>clearInterval(intervalId)\<close>\<close>
  "cleanup s = s\<lparr>interval := None\<rparr>"

text \<open>
  \<^verbatim>\<open>pollStatus\<close> up to its \<^verbatim>\<open>await\<close>: the guard reads the closure, and an empty id
  is falsy like \<^verbatim>\<open>null\<close>.
\<close>

definition pollStatus_start :: "closure \<Rightarrow> generator \<Rightarrow> generator" where
  "pollStatus_start cl s =
     (case fst cl of
        None \<Rightarrow> s
      | Some ident \<Rightarrow>
          if ident = [] \<or> snd cl \<noteq> S_generating then s
          else s\<lparr>in_flight := in_flight s @ [ident], polls_started := Suc (polls_started s)\<rparr>)"

definition pollStatus_catch :: "thrown \<Rightarrow> generator \<Rightarrow> generator" where
  \<comment> \<open>the \<^verbatim>\<open>catch\<close> branch of \<^verbatim>\<open>pollStatus\<close>\<close>
  "pollStatus_catch err s =
     setCurrentAnimationId None
       (setStatus S_error
         (setError (Some (message_or err ''Failed to check animation status'')) s))"

text \<open>
  \<^verbatim>\<open>pollStatus\<close> from the moment \<^verbatim>\<open>checkStatus\<close> settles: \<open>ident\<close> is the closure's
  \<^verbatim>\<open>currentAnimationId\<close>, \<open>settled\<close> the awaited result. The call of the callback is
  inside the \<^verbatim>\<open>try\<close>, after \<^verbatim>\<open>setStatus\<close>: when it throws, the \<^verbatim>\<open>catch\<close> branch runs.
\<close>

definition pollStatus_resume ::
  "callback \<Rightarrow> string \<Rightarrow> thrown + animation \<Rightarrow> generator \<Rightarrow> generator" where
  "pollStatus_resume onAnimationComplete ident settled s =
     (case settled of
        Inl err \<Rightarrow> pollStatus_catch err s
      | Inr animation \<Rightarrow>
          let newStatus = mapAnimationStatus (a_status animation);
              s1 = setStatus newStatus s
          in if newStatus = S_completed
             then (case onAnimationComplete of
                     None \<Rightarrow> setCurrentAnimationId None s1
                   | Some f \<Rightarrow>
                       let s2 = s1\<lparr>completions := completions s1 @ [ident]\<rparr>
                       in (case f ident of
                             None \<Rightarrow> setCurrentAnimationId None s2
                           | Some err \<Rightarrow> pollStatus_catch err s2))
             else if newStatus = S_error
             then setCurrentAnimationId None
                    (setError (Some (or_else (a_error animation) ''Animation generation failed'')) s1)
             else s1)"

text \<open>
  React's part. After state updates the component renders again, and when a dependency
  of the effect has changed the old effect is cleaned up and the effect runs anew. The
  model takes this to happen right after the handler that made the updates, before the
  next timer tick or response.
\<close>

definition rerender :: "generator \<Rightarrow> generator" where
  "rerender s =
     (if mounted s \<and> (currentAnimationId s, status s) \<noteq> effect_deps s
      then effect (cleanup s) else s)"

text \<open>
  What can happen to a generator while it polls: the live timer fires; the \<open>i\<close>-th
  suspended \<^verbatim>\<open>pollStatus\<close> gets its result; the component is unmounted, which runs the
  cleanup; or the effect is run again because \<^verbatim>\<open>checkStatus\<close> or
  \<^verbatim>\<open>onAnimationComplete\<close> is a new function.
\<close>

datatype poll_event =
    Tick
  | Settle nat "thrown + animation"
  | Unmount
  | Rerun

fun poll_step :: "callback \<Rightarrow> poll_event \<Rightarrow> generator \<Rightarrow> generator" where
  "poll_step cb Tick s =
     (case interval s of None \<Rightarrow> s | Some cl \<Rightarrow> pollStatus_start cl s)"
| "poll_step cb (Settle i settled) s =
     (if i < length (in_flight s)
      then rerender (pollStatus_resume cb (in_flight s ! i) settled
                       (s\<lparr>in_flight := take i (in_flight s) @ drop (Suc i) (in_flight s)\<rparr>))
      else s)"
| "poll_step cb Unmount s = (cleanup s)\<lparr>mounted := False\<rparr>"
| "poll_step cb Rerun s = (if mounted s then effect (cleanup s) else s)"

fun poll_run :: "callback \<Rightarrow> poll_event list \<Rightarrow> generator \<Rightarrow> generator" where
  "poll_run cb [] s = s"
| "poll_run cb (e # es) s = poll_run cb es (poll_step cb e s)"

definition polling :: "string \<Rightarrow> generator \<Rightarrow> bool" where
  \<comment> \<open>the state in which the timer calls \<^verbatim>\<open>checkStatus\<close> for job \<open>ident\<close>\<close>
  "polling ident s =
     (mounted s \<and> ident \<noteq> [] \<and> currentAnimationId s = Some ident \<and> status s = S_generating
      \<and> effect_deps s = (Some ident, S_generating)
      \<and> interval s = Some (Some ident, S_generating))"

text \<open>
  Without a current job no status call is started: a timer made from then on has no id
  in its closure, and only a new submission sets one.
\<close>

definition no_job :: "generator \<Rightarrow> bool" where
  "no_job s =
     (currentAnimationId s = None
      \<and> (case interval s of None \<Rightarrow> True | Some cl \<Rightarrow> fst cl = None))"

text \<open>
  A generator at rest: no timer, no call in flight, and a status other than generating.
\<close>

definition at_rest :: "generator \<Rightarrow> bool" where
  "at_rest s = (interval s = None \<and> in_flight s = [] \<and> status s \<noteq> S_generating)"

section \<open>Properties of the session store\<close>

text \<open>
  C8. \<^verbatim>\<open>logout\<close> is unconditional and idempotent: from any session state it removes the
  persisted token key, clears the user and the authenticated flag, and a second call
  changes nothing more.
\<close>

theorem logout_idempotent:
  "logout (logout a) = logout a
   \<and> getItem (storage (logout a)) ''auth_token'' = None
   \<and> user (logout a) = None
   \<and> \<not> isAuthenticated (logout a)"
  by (simp add: logout_def removeItem_def getItem_def)

text \<open>
  C7. At startup with a persisted token, a validation that gets a non-2xx response or
  no response at all removes the persisted token, leaves the session unauthenticated
  and settles normally.
\<close>

theorem validate_failure_clears_token:
  assumes "getItem ls ''auth_token'' = Some token" and "token \<noteq> []"
    and "out = Fetch_Rejected e \<or> out = Resp_NotOk st body"
  shows "getItem (storage (fst (on_mount out (initial_auth ls)))) ''auth_token'' = None
         \<and> user (fst (on_mount out (initial_auth ls))) = None
         \<and> \<not> isAuthenticated (fst (on_mount out (initial_auth ls)))
         \<and> snd (on_mount out (initial_auth ls)) = Inr ()"
  using assms
  by (auto simp: on_mount_def validateToken_def initial_auth_def getItem_def removeItem_def)

theorem validate_failure_clears_token_witness:
  "getItem (Map.empty(''auth_token'' \<mapsto> ''tok'')) ''auth_token'' = Some ''tok''
   \<and> ''tok'' \<noteq> []
   \<and> getItem (storage (fst (on_mount (Resp_NotOk 401 (Inr None))
            (initial_auth (Map.empty(''auth_token'' \<mapsto> ''tok'')))))) ''auth_token'' = None
   \<and> user (fst (on_mount (Resp_NotOk 401 (Inr None))
            (initial_auth (Map.empty(''auth_token'' \<mapsto> ''tok''))))) = None
   \<and> \<not> isAuthenticated (fst (on_mount (Resp_NotOk 401 (Inr None))
            (initial_auth (Map.empty(''auth_token'' \<mapsto> ''tok'')))))
   \<and> snd (on_mount (Resp_NotOk 401 (Inr None))
            (initial_auth (Map.empty(''auth_token'' \<mapsto> ''tok'')))) = Inr ()
   \<and> on_mount (Fetch_Rejected (JsError ''TypeError'' ''Failed to fetch''))
        (initial_auth (Map.empty(''auth_token'' \<mapsto> ''tok'')))
      = (\<lparr>storage = Map.empty, user = None, isAuthenticated = False\<rparr>, Inr ())"
  using validate_failure_clears_token
    [of "Map.empty(''auth_token'' \<mapsto> ''tok'')" "''tok''" "Resp_NotOk 401 (Inr None)" _ 401 "Inr None"]
    validate_failure_clears_token
    [of "Map.empty(''auth_token'' \<mapsto> ''tok'')" "''tok''"
        "Fetch_Rejected (JsError ''TypeError'' ''Failed to fetch'')"
        "JsError ''TypeError'' ''Failed to fetch''"]
  by (simp add: getItem_def on_mount_def validateToken_def initial_auth_def removeItem_def)

section \<open>Properties of the job client\<close>




text \<open>
  C6, as the claim states it, fails. \<^verbatim>\<open>listAnimations\<close> gives its caller the same
  result for a connection failure and for a non-2xx response whose body carries the
  same text: both resolve normally and leave only the message in the error cell.
\<close>

theorem listAnimations_failures_indistinguishable:
  "listAnimations \<lparr>storage = Map.empty(''auth_token'' \<mapsto> ''tok''), user = None,
                    isAuthenticated = True\<rparr>
      (Fetch_Rejected (JsError ''TypeError'' ''Failed to fetch''))
      \<lparr>animations = [], loading = False, h_error = None\<rparr>
   = listAnimations \<lparr>storage = Map.empty(''auth_token'' \<mapsto> ''tok''), user = None,
                      isAuthenticated = True\<rparr>
      (Resp_NotOk 500 (Inr (Some ''Failed to fetch'')))
      \<lparr>animations = [], loading = False, h_error = None\<rparr>"
  by (simp add: listAnimations_def getToken_def getItem_def message_or_def or_else_def
                new_Error_def)

text \<open>
  C6, amended. The client has no error kinds of its own. With a session and a stored
  token, generate, status, delete, get and the chat send rethrow the rejection value of
  \<^verbatim>\<open>fetch\<close> unchanged; they answer a non-2xx response whose body can be read by throwing
  a plain \<^verbatim>\<open>Error\<close> made of the body's message (or a fixed text), whatever the HTTP
  status; and they answer a non-2xx response whose body cannot be read by rethrowing
  the error of \<^verbatim>\<open>response.json()\<close>. List throws in none of these cases and keeps only
  the message text.
\<close>

theorem failures_surface_as_plain_errors:
  assumes "isAuthenticated a" and "getToken (storage a) = Inr token"
  shows "snd (generateAnimation a (Fetch_Rejected e) h) = Inl e
       \<and> snd (generateAnimation a (Resp_NotOk st (Inr m)) h)
           = Inl (JsError ''Error'' (or_else m ''Failed to generate animation''))
       \<and> snd (generateAnimation a (Resp_NotOk st (Inl pe)) h) = Inl pe
       \<and> snd (checkStatus a (Fetch_Rejected e) h) = Inl e
       \<and> snd (checkStatus a (Resp_NotOk st (Inr m)) h)
           = Inl (JsError ''Error'' (or_else m ''Failed to check animation status''))
       \<and> snd (checkStatus a (Resp_NotOk st (Inl pe)) h) = Inl pe
       \<and> snd (deleteAnimation a animationId (Fetch_Rejected e) h) = Inl e
       \<and> snd (deleteAnimation a animationId (Resp_NotOk st (Inr m)) h)
           = Inl (JsError ''Error'' (or_else m ''Failed to delete animation''))
       \<and> snd (deleteAnimation a animationId (Resp_NotOk st (Inl pe)) h) = Inl pe
       \<and> snd (getAnimation a (Fetch_Rejected e) h) = Inl e
       \<and> snd (getAnimation a (Resp_NotOk st (Inr m)) h)
           = Inl (JsError ''Error'' (or_else m ''Failed to get animation''))
       \<and> snd (getAnimation a (Resp_NotOk st (Inl pe)) h) = Inl pe
       \<and> chatService_sendMessage (Fetch_Rejected e) = Inl e
       \<and> chatService_sendMessage (Resp_NotOk st (Inr m))
           = Inl (JsError ''Error'' (or_else m ''Failed to generate animation''))
       \<and> chatService_sendMessage (Resp_NotOk st (Inl pe)) = Inl pe
       \<and> snd (listAnimations a (Fetch_Rejected e) h) = Inr ()
       \<and> h_error (fst (listAnimations a (Fetch_Rejected e) h))
           = Some (message_or e ''Failed to list animations'')
       \<and> snd (listAnimations a (Resp_NotOk st (Inr m)) h) = Inr ()
       \<and> h_error (fst (listAnimations a (Resp_NotOk st (Inr m)) h))
           = Some (or_else m ''Failed to list animations'')
       \<and> snd (listAnimations a (Resp_NotOk st (Inl pe)) h) = Inr ()
       \<and> h_error (fst (listAnimations a (Resp_NotOk st (Inl pe)) h))
           = Some (message_or pe ''Failed to list animations'')"
  using assms
  by (simp add: generateAnimation_def checkStatus_def deleteAnimation_def getAnimation_def
                chatService_sendMessage_def listAnimations_def new_Error_def message_or_def)

theorem failures_surface_as_plain_errors_witness:
  "isAuthenticated \<lparr>storage = Map.empty(''auth_token'' \<mapsto> ''tok''), user = None,
                     isAuthenticated = True\<rparr>
   \<and> getToken (Map.empty(''auth_token'' \<mapsto> ''tok'')) = Inr ''tok''
   \<and> snd (checkStatus \<lparr>storage = Map.empty(''auth_token'' \<mapsto> ''tok''), user = None,
                        isAuthenticated = True\<rparr>
            (Fetch_Rejected (JsError ''TypeError'' ''Failed to fetch''))
            \<lparr>animations = [], loading = False, h_error = None\<rparr>)
       = Inl (JsError ''TypeError'' ''Failed to fetch'')
   \<and> snd (checkStatus \<lparr>storage = Map.empty(''auth_token'' \<mapsto> ''tok''), user = None,
                        isAuthenticated = True\<rparr>
            (Resp_NotOk 503 (Inr None))
            \<lparr>animations = [], loading = False, h_error = None\<rparr>)
       = Inl (JsError ''Error'' ''Failed to check animation status'')
   \<and> snd (checkStatus \<lparr>storage = Map.empty(''auth_token'' \<mapsto> ''tok''), user = None,
                        isAuthenticated = True\<rparr>
            (Resp_NotOk 503 (Inl (JsError ''SyntaxError'' ''Unexpected token <'')))
            \<lparr>animations = [], loading = False, h_error = None\<rparr>)
       = Inl (JsError ''SyntaxError'' ''Unexpected token <'')"
proof -
  have tok: "getToken (Map.empty(''auth_token'' \<mapsto> ''tok'')) = Inr ''tok''"
    by (simp add: getToken_def getItem_def)
  show ?thesis
    using tok failures_surface_as_plain_errors
      [where a = "\<lparr>storage = Map.empty(''auth_token'' \<mapsto> ''tok''), user = None,
                    isAuthenticated = True\<rparr>"
         and token = "''tok''" and e = "JsError ''TypeError'' ''Failed to fetch''"
         and h = "\<lparr>animations = [], loading = False, h_error = None\<rparr>"
         and st = 503 and m = None
         and pe = "JsError ''SyntaxError'' ''Unexpected token <''"
         and animationId = "''x''"]
    by (simp add: or_else_def)
qed

section \<open>Properties of the chat orchestrator\<close>

text \<open>
  C3, as the claim states it, fails: \<^verbatim>\<open>sendMessage("")\<close> with a session and a stored
  token does not fail. It appends the user's entry with the empty content, calls the
  backend and completes like any other message.
\<close>

theorem sendMessage_empty_is_sent:
  "sendMessage \<lparr>storage = Map.empty(''auth_token'' \<mapsto> ''tok''),
                 user = Some \<lparr>u_id = ''7'', u_email = ''a@b.c'', u_name = ''Ann''\<rparr>,
                 isAuthenticated = True\<rparr>
      [] ''u1'' 10 (Resp_Ok (Inr \<lparr>message = ''ok'', animationUrl = None\<rparr>)) ''u2'' 11
      \<lparr>messages = [], isLoading = False\<rparr>
   = (\<lparr>messages =
         [\<lparr>m_id = ''u1'', role = User, content = [], timestamp = 10,
           m_status = Some M_completed, m_animationUrl = None\<rparr>,
          \<lparr>m_id = ''u2'', role = Assistant, content = ''ok'', timestamp = 11,
           m_status = Some M_completed, m_animationUrl = None\<rparr>],
       isLoading = False\<rparr>, Inr ())"
  by (simp add: sendMessage_def sendMessage_begin_def sendMessage_resume_def
                chatService_sendMessage_def getItem_def with_status_def Let_def)

text \<open>
  C3, amended. \<^verbatim>\<open>sendMessage\<close> does not validate its content: given a session and a
  stored token, the empty content is appended as a pending user entry and the call does
  not throw.
\<close>

theorem sendMessage_does_not_validate:
  assumes "isAuthenticated a" and "user a \<noteq> None"
    and "getItem (storage a) ''auth_token'' = Some token" and "token \<noteq> []"
  shows "sendMessage_begin a [] uuid now c
         = Inr (\<lparr>m_id = uuid, role = User, content = [], timestamp = now,
                  m_status = Some M_pending, m_animationUrl = None\<rparr>,
                c\<lparr>messages := messages c @
                      [\<lparr>m_id = uuid, role = User, content = [], timestamp = now,
                        m_status = Some M_pending, m_animationUrl = None\<rparr>],
                  isLoading := True\<rparr>)
       \<and> snd (sendMessage a [] uuid now out uuid2 now2 c) = Inr ()"
  using assms by (simp add: sendMessage_def sendMessage_begin_def Let_def)

theorem sendMessage_does_not_validate_witness:
  "isAuthenticated \<lparr>storage = Map.empty(''auth_token'' \<mapsto> ''tok''),
                     user = Some \<lparr>u_id = ''7'', u_email = ''a@b.c'', u_name = ''Ann''\<rparr>,
                     isAuthenticated = True\<rparr>
   \<and> getItem (Map.empty(''auth_token'' \<mapsto> ''tok'')) ''auth_token'' = Some ''tok''
   \<and> messages (snd (projr (sendMessage_begin
        \<lparr>storage = Map.empty(''auth_token'' \<mapsto> ''tok''),
          user = Some \<lparr>u_id = ''7'', u_email = ''a@b.c'', u_name = ''Ann''\<rparr>,
          isAuthenticated = True\<rparr>
        [] ''u1'' 10 \<lparr>messages = [], isLoading = False\<rparr>)))
     = [\<lparr>m_id = ''u1'', role = User, content = [], timestamp = 10,
         m_status = Some M_pending, m_animationUrl = None\<rparr>]"
  using sendMessage_does_not_validate
    [of "\<lparr>storage = Map.empty(''auth_token'' \<mapsto> ''tok''),
          user = Some \<lparr>u_id = ''7'', u_email = ''a@b.c'', u_name = ''Ann''\<rparr>,
          isAuthenticated = True\<rparr>" "''tok''" "''u1''" 10
        "\<lparr>messages = [], isLoading = False\<rparr>"]
  by (simp add: getItem_def)



text \<open>
  C9, as the claim states it, fails: the provider has a third writer. Once the session
  is authenticated it loads the chat history and sets the transcript to what the server
  returned, so an entry that \<^verbatim>\<open>sendMessage\<close> appended while the history was on its way
  is gone, without any \<^verbatim>\<open>clearMessages\<close>.
\<close>

theorem loadChatHistory_replaces_transcript:
  "messages (snd (projr (sendMessage_begin
       \<lparr>storage = Map.empty(''auth_token'' \<mapsto> ''tok''),
         user = Some \<lparr>u_id = ''7'', u_email = ''a@b.c'', u_name = ''Ann''\<rparr>,
         isAuthenticated = True\<rparr>
       ''Draw a circle'' ''u1'' 10 \<lparr>messages = [], isLoading = False\<rparr>)))
     = [\<lparr>m_id = ''u1'', role = User, content = ''Draw a circle'', timestamp = 10,
         m_status = Some M_pending, m_animationUrl = None\<rparr>]
   \<and> messages (loadChatHistory (Resp_Ok (Inr []))
       (snd (projr (sendMessage_begin
         \<lparr>storage = Map.empty(''auth_token'' \<mapsto> ''tok''),
           user = Some \<lparr>u_id = ''7'', u_email = ''a@b.c'', u_name = ''Ann''\<rparr>,
           isAuthenticated = True\<rparr>
         ''Draw a circle'' ''u1'' 10 \<lparr>messages = [], isLoading = False\<rparr>)))) = []
   \<and> \<not> kept_in_order
       [\<lparr>m_id = ''u1'', role = User, content = ''Draw a circle'', timestamp = 10,
         m_status = Some M_pending, m_animationUrl = None\<rparr>] []"
  by (simp add: sendMessage_begin_def loadChatHistory_def chatService_getChatHistory_def
                getItem_def kept_in_order_def Let_def)

lemma same_but_status_refl: "same_but_status m m"
  by (simp add: same_but_status_def)

lemma same_but_status_with_status: "same_but_status m (with_status uid st m)"
  by (simp add: same_but_status_def with_status_def)

lemma same_but_status_trans:
  "same_but_status a b \<Longrightarrow> same_but_status b c \<Longrightarrow> same_but_status a c"
  by (cases a, cases b, cases c) (simp add: same_but_status_def)

lemma kept_in_order_refl: "kept_in_order xs xs"
  by (simp add: kept_in_order_def list_all2_refl same_but_status_refl)

lemma kept_in_order_append: "kept_in_order xs (xs @ ys)"
  by (simp add: kept_in_order_def list_all2_refl same_but_status_refl)

lemma kept_in_order_map_append: "kept_in_order xs (map (with_status uid st) xs @ ys)"
  by (simp add: kept_in_order_def list_all2_conv_all_nth same_but_status_with_status)

lemma kept_in_order_trans:
  assumes "kept_in_order xs ys" and "kept_in_order ys zs"
  shows "kept_in_order xs zs"
proof -
  from assms have len: "length xs \<le> length ys" "length ys \<le> length zs"
    by (simp_all add: kept_in_order_def)
  have "same_but_status (xs ! i) (zs ! i)" if "i < length xs" for i
  proof -
    from that len have "same_but_status (xs ! i) (ys ! i)"
      using assms(1) by (auto simp: kept_in_order_def list_all2_conv_all_nth)
    moreover from that len have "same_but_status (ys ! i) (zs ! i)"
      using assms(2) by (auto simp: kept_in_order_def list_all2_conv_all_nth)
    ultimately show ?thesis by (rule same_but_status_trans)
  qed
  with len show ?thesis
    by (auto simp: kept_in_order_def list_all2_conv_all_nth)
qed

lemma apply_step_kept: "kept_in_order (messages c) (messages (apply_step x c))"
proof (cases x)
  case (Begin a input uuid now)
  then show ?thesis
    by (auto simp: sendMessage_begin_def Let_def kept_in_order_refl kept_in_order_append
             split: sum.splits option.splits if_splits)
next
  case (Resume userMessage settled uuid now)
  then show ?thesis
    by (auto simp: sendMessage_resume_def Let_def kept_in_order_map_append split: sum.splits)
qed

text \<open>
  C9, amended. The steps of \<^verbatim>\<open>sendMessage\<close>, in any number and any interleaving, keep
  every existing entry in its place and change at most its status; new entries come
  after them. Besides \<^verbatim>\<open>clearMessages\<close>, the history load replaces the transcript.
\<close>

theorem send_steps_kept: "kept_in_order (messages c) (messages (send_steps xs c))"
proof (induction xs arbitrary: c)
  case Nil
  show ?case by (simp add: kept_in_order_refl)
next
  case (Cons x xs)
  have "kept_in_order (messages c) (messages (apply_step x c))"
    by (rule apply_step_kept)
  moreover have "kept_in_order (messages (apply_step x c))
                   (messages (send_steps xs (apply_step x c)))"
    by (rule Cons.IH)
  ultimately show ?case by (simp add: kept_in_order_trans)
qed

section \<open>Properties of the job poller\<close>

lemma poll_step_unmounted:
  assumes "\<not> mounted s" and "interval s = None"
  shows "\<not> mounted (poll_step cb e s) \<and> interval (poll_step cb e s) = None
       \<and> polls_started (poll_step cb e s) = polls_started s
       \<and> status (poll_step cb e s) = status s
       \<and> error (poll_step cb e s) = error s
       \<and> currentAnimationId (poll_step cb e s) = currentAnimationId s
       \<and> length (completions (poll_step cb e s)) + length (in_flight (poll_step cb e s))
           \<le> length (completions s) + length (in_flight s)"
proof (cases e)
  case Tick
  with assms show ?thesis by simp
next
  case (Settle i settled)
  with assms show ?thesis
    by (cases settled)
       (auto simp: pollStatus_resume_def pollStatus_catch_def rerender_def setStatus_def
                   setError_def setCurrentAnimationId_def Let_def
             split: option.splits)
next
  case Unmount
  with assms show ?thesis by (simp add: cleanup_def)
next
  case Rerun
  with assms show ?thesis by simp
qed

lemma poll_run_unmounted:
  assumes "\<not> mounted s" and "interval s = None"
  shows "polls_started (poll_run cb es s) = polls_started s
       \<and> status (poll_run cb es s) = status s
       \<and> error (poll_run cb es s) = error s
       \<and> currentAnimationId (poll_run cb es s) = currentAnimationId s
       \<and> length (completions (poll_run cb es s)) \<le> length (completions s) + length (in_flight s)"
  using assms
proof (induction es arbitrary: s)
  case Nil
  then show ?case by simp
next
  case (Cons e es)
  let ?t = "poll_step cb e s"
  from Cons.prems have step: "\<not> mounted ?t \<and> interval ?t = None
       \<and> polls_started ?t = polls_started s \<and> status ?t = status s \<and> error ?t = error s
       \<and> currentAnimationId ?t = currentAnimationId s
       \<and> length (completions ?t) + length (in_flight ?t)
           \<le> length (completions s) + length (in_flight s)"
    by (rule poll_step_unmounted)
  then have "polls_started (poll_run cb es ?t) = polls_started ?t
       \<and> status (poll_run cb es ?t) = status ?t
       \<and> error (poll_run cb es ?t) = error ?t
       \<and> currentAnimationId (poll_run cb es ?t) = currentAnimationId ?t
       \<and> length (completions (poll_run cb es ?t)) \<le> length (completions ?t) + length (in_flight ?t)"
    using Cons.IH by blast
  with step show ?case by simp
qed

lemma poll_step_no_job:
  assumes "no_job s"
  shows "no_job (poll_step cb e s) \<and> polls_started (poll_step cb e s) = polls_started s"
proof (cases e)
  case Tick
  with assms show ?thesis
    by (auto simp: no_job_def pollStatus_start_def split: option.splits)
next
  case (Settle i settled)
  with assms show ?thesis
    by (cases settled)
       (auto simp: no_job_def pollStatus_resume_def pollStatus_catch_def rerender_def
                   effect_def cleanup_def setStatus_def setError_def
                   setCurrentAnimationId_def Let_def
             split: option.splits)
next
  case Unmount
  with assms show ?thesis by (simp add: no_job_def cleanup_def)
next
  case Rerun
  with assms show ?thesis by (simp add: no_job_def effect_def cleanup_def)
qed

lemma poll_run_no_job:
  assumes "no_job s"
  shows "polls_started (poll_run cb es s) = polls_started s"
  using assms
proof (induction es arbitrary: s)
  case Nil
  then show ?case by simp
next
  case (Cons e es)
  from Cons.prems
  have "no_job (poll_step cb e s) \<and> polls_started (poll_step cb e s) = polls_started s"
    by (rule poll_step_no_job)
  with Cons.IH show ?case by simp
qed

lemma poll_step_at_rest:
  assumes "at_rest s"
  shows "at_rest (poll_step cb e s)
       \<and> status (poll_step cb e s) = status s
       \<and> error (poll_step cb e s) = error s
       \<and> currentAnimationId (poll_step cb e s) = currentAnimationId s
       \<and> completions (poll_step cb e s) = completions s
       \<and> polls_started (poll_step cb e s) = polls_started s"
proof (cases e)
  case Tick
  with assms show ?thesis by (simp add: at_rest_def)
next
  case (Settle i settled)
  with assms show ?thesis by (simp add: at_rest_def)
next
  case Unmount
  with assms show ?thesis by (simp add: at_rest_def cleanup_def)
next
  case Rerun
  with assms show ?thesis by (simp add: at_rest_def effect_def cleanup_def)
qed

lemma poll_run_at_rest:
  assumes "at_rest s"
  shows "status (poll_run cb es s) = status s
       \<and> error (poll_run cb es s) = error s
       \<and> currentAnimationId (poll_run cb es s) = currentAnimationId s
       \<and> completions (poll_run cb es s) = completions s
       \<and> polls_started (poll_run cb es s) = polls_started s"
  using assms
proof (induction es arbitrary: s)
  case Nil
  then show ?case by simp
next
  case (Cons e es)
  let ?t = "poll_step cb e s"
  from Cons.prems have step: "at_rest ?t \<and> status ?t = status s \<and> error ?t = error s
       \<and> currentAnimationId ?t = currentAnimationId s \<and> completions ?t = completions s
       \<and> polls_started ?t = polls_started s"
    by (rule poll_step_at_rest)
  then have "status (poll_run cb es ?t) = status ?t
       \<and> error (poll_run cb es ?t) = error ?t
       \<and> currentAnimationId (poll_run cb es ?t) = currentAnimationId ?t
       \<and> completions (poll_run cb es ?t) = completions ?t
       \<and> polls_started (poll_run cb es ?t) = polls_started ?t"
    using Cons.IH by blast
  with step show ?case by simp
qed

lemma only_call_in_flight:
  assumes "length xs = Suc 0" and "i < length xs"
  shows "take i xs @ drop (Suc i) xs = []"
  using assms by (cases xs) auto

lemma checkStatus_failure:
  assumes "out = Fetch_Rejected e \<or> out = Resp_NotOk st body"
  shows "\<exists>err. snd (checkStatus a out h) = Inl err"
  using assms
  by (auto simp: checkStatus_def Let_def split: sum.splits)

lemma settle_pending:
  assumes "polling ident s" and "i < length (in_flight s)"
    and "a_status animation = ''pending'' \<or> a_status animation = ''generating''"
  shows "polling ident (poll_step cb (Settle i (Inr animation)) s)
       \<and> completions (poll_step cb (Settle i (Inr animation)) s) = completions s
       \<and> error (poll_step cb (Settle i (Inr animation)) s) = error s"
  using assms
  by (auto simp: polling_def pollStatus_resume_def rerender_def setStatus_def
                 mapAnimationStatus_def Let_def)

lemma settle_completed_none:
  assumes "polling ident s" and "i < length (in_flight s)"
    and "a_status animation = ''completed''" and "cb = None"
  shows "poll_step cb (Settle i (Inr animation)) s
         = s\<lparr>in_flight := take i (in_flight s) @ drop (Suc i) (in_flight s),
              status := S_completed, currentAnimationId := None,
              effect_deps := (None, S_completed), interval := None\<rparr>"
  using assms
  by (simp add: polling_def pollStatus_resume_def rerender_def effect_def cleanup_def
                setStatus_def setCurrentAnimationId_def mapAnimationStatus_def Let_def)

lemma settle_completed_returns:
  assumes "polling ident s" and "i < length (in_flight s)"
    and "a_status animation = ''completed''" and "cb = Some f"
    and "f (in_flight s ! i) = None"
  shows "poll_step cb (Settle i (Inr animation)) s
         = s\<lparr>in_flight := take i (in_flight s) @ drop (Suc i) (in_flight s),
              status := S_completed, completions := completions s @ [in_flight s ! i],
              currentAnimationId := None,
              effect_deps := (None, S_completed), interval := None\<rparr>"
  using assms
  by (simp add: polling_def pollStatus_resume_def rerender_def effect_def cleanup_def
                setStatus_def setCurrentAnimationId_def mapAnimationStatus_def Let_def)

lemma settle_completed_throws:
  assumes "polling ident s" and "i < length (in_flight s)"
    and "a_status animation = ''completed''" and "cb = Some f"
    and "f (in_flight s ! i) = Some err"
  shows "poll_step cb (Settle i (Inr animation)) s
         = s\<lparr>in_flight := take i (in_flight s) @ drop (Suc i) (in_flight s),
              status := S_completed, completions := completions s @ [in_flight s ! i],
              error := Some (message_or err ''Failed to check animation status''),
              status := S_error, currentAnimationId := None,
              effect_deps := (None, S_error), interval := None\<rparr>"
  using assms
  by (simp add: polling_def pollStatus_resume_def pollStatus_catch_def rerender_def
                effect_def cleanup_def setStatus_def setError_def
                setCurrentAnimationId_def mapAnimationStatus_def Let_def)

lemma settle_error:
  assumes "polling ident s" and "i < length (in_flight s)"
    and "a_status animation = ''error''"
  shows "poll_step cb (Settle i (Inr animation)) s
         = s\<lparr>in_flight := take i (in_flight s) @ drop (Suc i) (in_flight s),
              status := S_error,
              error := Some (or_else (a_error animation) ''Animation generation failed''),
              currentAnimationId := None,
              effect_deps := (None, S_error), interval := None\<rparr>"
  using assms
  by (simp add: polling_def pollStatus_resume_def rerender_def effect_def cleanup_def
                setStatus_def setError_def setCurrentAnimationId_def
                mapAnimationStatus_def Let_def)

text \<open>
  C1, as the claim states it, fails. The cleanup only clears the interval; a
  \<^verbatim>\<open>pollStatus\<close> already waiting for its response carries no token that would make it
  stale. With one status call in flight, unmounting and then receiving \<^verbatim>\<open>completed\<close>
  still calls \<^verbatim>\<open>onAnimationComplete\<close>; and two calls in flight that both receive
  \<^verbatim>\<open>completed\<close> call it twice.
\<close>

theorem late_response_fires_after_cancel:
  "completions (poll_run (Some (\<lambda>ident. None)) [Tick, Unmount]
      (effect \<lparr>currentAnimationId = Some ''abc123'', status = S_generating, error = None,
               mounted = True, effect_deps = (None, S_idle), interval = None,
               in_flight = [], polls_started = 0, completions = []\<rparr>)) = []
   \<and> completions (poll_run (Some (\<lambda>ident. None))
      [Tick, Unmount,
       Settle 0 (Inr \<lparr>a_id = ''abc123'', user_id = ''7'', prompt = ''Draw a circle'',
                      a_status = ''completed'', video_path = Some ''/v/abc123.mp4'',
                      a_error = None, created_at = ''t0'', updated_at = ''t1''\<rparr>)]
      (effect \<lparr>currentAnimationId = Some ''abc123'', status = S_generating, error = None,
               mounted = True, effect_deps = (None, S_idle), interval = None,
               in_flight = [], polls_started = 0, completions = []\<rparr>)) = [''abc123'']
   \<and> completions (poll_run (Some (\<lambda>ident. None))
      [Tick, Tick,
       Settle 0 (Inr \<lparr>a_id = ''abc123'', user_id = ''7'', prompt = ''Draw a circle'',
                      a_status = ''completed'', video_path = Some ''/v/abc123.mp4'',
                      a_error = None, created_at = ''t0'', updated_at = ''t1''\<rparr>),
       Settle 0 (Inr \<lparr>a_id = ''abc123'', user_id = ''7'', prompt = ''Draw a circle'',
                      a_status = ''completed'', video_path = Some ''/v/abc123.mp4'',
                      a_error = None, created_at = ''t0'', updated_at = ''t1''\<rparr>)]
      (effect \<lparr>currentAnimationId = Some ''abc123'', status = S_generating, error = None,
               mounted = True, effect_deps = (None, S_idle), interval = None,
               in_flight = [], polls_started = 0, completions = []\<rparr>))
     = [''abc123'', ''abc123'']"
  by (simp add: effect_def cleanup_def pollStatus_start_def pollStatus_resume_def rerender_def
                setStatus_def setError_def setCurrentAnimationId_def
                mapAnimationStatus_def Let_def)

text \<open>
  C1, amended. After the component is unmounted the interval starts no further status
  call and no transition reaches the component's state: \<open>status\<close>, \<open>error\<close> and
  \<open>currentAnimationId\<close> stay as they were. A response that was in flight is not
  discarded, though; each one can still call \<^verbatim>\<open>onAnimationComplete\<close>, so the number of
  completion callbacks after the cancel is at most the number of status calls in flight
  at the cancel (none if none was in flight).
\<close>

theorem cancel_stops_polling_only:
  "polls_started (poll_run cb es (poll_step cb Unmount s)) = polls_started s
   \<and> status (poll_run cb es (poll_step cb Unmount s)) = status s
   \<and> error (poll_run cb es (poll_step cb Unmount s)) = error s
   \<and> currentAnimationId (poll_run cb es (poll_step cb Unmount s)) = currentAnimationId s
   \<and> length (completions (poll_run cb es (poll_step cb Unmount s)))
       \<le> length (completions s) + length (in_flight s)"
  using poll_run_unmounted [of "poll_step cb Unmount s" cb es]
  by (simp add: cleanup_def)

text \<open>
  C2, as the claim states it, fails in four points. The completion event carries the id
  of the job, not its video path. The completed state is not terminal when a second
  status call is in flight: its late \<^verbatim>\<open>pending\<close> answer sets the status back to
  generating. An error text that is present but empty is replaced by the generic text.
  And when the completion callback throws, the poller ends in the failed state.
\<close>

theorem completion_carries_job_id:
  "completions (poll_run (Some (\<lambda>ident. None))
      [Tick,
       Settle 0 (Inr \<lparr>a_id = ''abc123'', user_id = ''7'', prompt = ''Draw a circle'',
                      a_status = ''completed'', video_path = Some ''/v/abc123.mp4'',
                      a_error = None, created_at = ''t0'', updated_at = ''t1''\<rparr>)]
      (effect \<lparr>currentAnimationId = Some ''abc123'', status = S_generating, error = None,
               mounted = True, effect_deps = (None, S_idle), interval = None,
               in_flight = [], polls_started = 0, completions = []\<rparr>)) = [''abc123'']
   \<and> [''abc123''] \<noteq> [''/v/abc123.mp4'']
   \<and> status (poll_run (Some (\<lambda>ident. None))
      [Tick, Tick,
       Settle 0 (Inr \<lparr>a_id = ''abc123'', user_id = ''7'', prompt = ''Draw a circle'',
                      a_status = ''completed'', video_path = Some ''/v/abc123.mp4'',
                      a_error = None, created_at = ''t0'', updated_at = ''t1''\<rparr>)]
      (effect \<lparr>currentAnimationId = Some ''abc123'', status = S_generating, error = None,
               mounted = True, effect_deps = (None, S_idle), interval = None,
               in_flight = [], polls_started = 0, completions = []\<rparr>)) = S_completed
   \<and> status (poll_run (Some (\<lambda>ident. None))
      [Tick, Tick,
       Settle 0 (Inr \<lparr>a_id = ''abc123'', user_id = ''7'', prompt = ''Draw a circle'',
                      a_status = ''completed'', video_path = Some ''/v/abc123.mp4'',
                      a_error = None, created_at = ''t0'', updated_at = ''t1''\<rparr>),
       Settle 0 (Inr \<lparr>a_id = ''abc123'', user_id = ''7'', prompt = ''Draw a circle'',
                      a_status = ''pending'', video_path = None,
                      a_error = None, created_at = ''t0'', updated_at = ''t0''\<rparr>)]
      (effect \<lparr>currentAnimationId = Some ''abc123'', status = S_generating, error = None,
               mounted = True, effect_deps = (None, S_idle), interval = None,
               in_flight = [], polls_started = 0, completions = []\<rparr>)) = S_generating
   \<and> error (poll_run (Some (\<lambda>ident. None))
      [Tick,
       Settle 0 (Inr \<lparr>a_id = ''abc123'', user_id = ''7'', prompt = ''Draw a circle'',
                      a_status = ''error'', video_path = None,
                      a_error = Some [], created_at = ''t0'', updated_at = ''t1''\<rparr>)]
      (effect \<lparr>currentAnimationId = Some ''abc123'', status = S_generating, error = None,
               mounted = True, effect_deps = (None, S_idle), interval = None,
               in_flight = [], polls_started = 0, completions = []\<rparr>))
     = Some ''Animation generation failed''
   \<and> status (poll_run (Some (\<lambda>ident. Some (JsError ''Error'' ''boom'')))
      [Tick,
       Settle 0 (Inr \<lparr>a_id = ''abc123'', user_id = ''7'', prompt = ''Draw a circle'',
                      a_status = ''completed'', video_path = Some ''/v/abc123.mp4'',
                      a_error = None, created_at = ''t0'', updated_at = ''t1''\<rparr>)]
      (effect \<lparr>currentAnimationId = Some ''abc123'', status = S_generating, error = None,
               mounted = True, effect_deps = (None, S_idle), interval = None,
               in_flight = [], polls_started = 0, completions = []\<rparr>)) = S_error"
  by (simp add: effect_def cleanup_def pollStatus_start_def pollStatus_resume_def
                pollStatus_catch_def rerender_def setStatus_def setError_def
                setCurrentAnimationId_def mapAnimationStatus_def or_else_def Let_def)

text \<open>
  C2, amended. For a status response received while polling, where \<open>in_flight s ! i\<close> is
  the job the call was made for: on \<^verbatim>\<open>pending\<close> or \<^verbatim>\<open>generating\<close> the poller goes on
  polling and nothing is emitted. On \<^verbatim>\<open>completed\<close> the timer is cleared and the completion
  callback, if one is given, is called with the job's id; the poller is then in the
  completed state, or, when the callback throws, in the failed state with the thrown
  error's message. On \<^verbatim>\<open>error\<close> the timer is cleared and the poller is in the failed state
  with the job's error text, or the generic text when that is absent or empty. When the
  answered call was the only one in flight, the state reached on \<^verbatim>\<open>completed\<close> or
  \<^verbatim>\<open>error\<close> is terminal: no later poller event changes the status, the error, the
  callbacks made or the number of status calls.
\<close>

theorem status_response_mapping:
  assumes "polling ident s" and "i < length (in_flight s)"
  shows "let s' = poll_step cb (Settle i (Inr animation)) s in
           (a_status animation = ''pending'' \<or> a_status animation = ''generating'' \<longrightarrow>
              polling ident s' \<and> completions s' = completions s \<and> error s' = error s)
         \<and> (a_status animation = ''completed'' \<longrightarrow>
              currentAnimationId s' = None \<and> interval s' = None
              \<and> (cb = None \<longrightarrow>
                    status s' = S_completed \<and> error s' = error s
                    \<and> completions s' = completions s)
              \<and> (\<forall>f. cb = Some f \<and> f (in_flight s ! i) = None \<longrightarrow>
                    status s' = S_completed \<and> error s' = error s
                    \<and> completions s' = completions s @ [in_flight s ! i])
              \<and> (\<forall>f err. cb = Some f \<and> f (in_flight s ! i) = Some err \<longrightarrow>
                    status s' = S_error
                    \<and> error s' = Some (message_or err ''Failed to check animation status'')
                    \<and> completions s' = completions s @ [in_flight s ! i]))
         \<and> (a_status animation = ''error'' \<longrightarrow>
              status s' = S_error \<and> currentAnimationId s' = None \<and> interval s' = None
              \<and> error s' = Some (or_else (a_error animation) ''Animation generation failed'')
              \<and> completions s' = completions s)
         \<and> ((a_status animation = ''completed'' \<or> a_status animation = ''error'')
              \<and> length (in_flight s) = 1 \<longrightarrow>
              (\<forall>es. status (poll_run cb es s') = status s'
                    \<and> error (poll_run cb es s') = error s'
                    \<and> currentAnimationId (poll_run cb es s') = None
                    \<and> completions (poll_run cb es s') = completions s'
                    \<and> polls_started (poll_run cb es s') = polls_started s))"
proof -
  let ?s' = "poll_step cb (Settle i (Inr animation)) s"
  let ?j = "in_flight s ! i"
  let ?rest = "take i (in_flight s) @ drop (Suc i) (in_flight s)"
  have pend: "polling ident ?s' \<and> completions ?s' = completions s \<and> error ?s' = error s"
    if "a_status animation = ''pending'' \<or> a_status animation = ''generating''"
    using assms that by (rule settle_pending)
  have c_none: "currentAnimationId ?s' = None \<and> interval ?s' = None
      \<and> status ?s' = S_completed \<and> error ?s' = error s \<and> completions ?s' = completions s
      \<and> polls_started ?s' = polls_started s \<and> in_flight ?s' = ?rest"
    if "a_status animation = ''completed''" and "cb = None"
    unfolding settle_completed_none [OF assms that] by simp
  have c_ret: "currentAnimationId ?s' = None \<and> interval ?s' = None
      \<and> status ?s' = S_completed \<and> error ?s' = error s
      \<and> completions ?s' = completions s @ [?j]
      \<and> polls_started ?s' = polls_started s \<and> in_flight ?s' = ?rest"
    if "a_status animation = ''completed''" and "cb = Some f" and "f ?j = None" for f
    unfolding settle_completed_returns [OF assms that] by simp
  have c_thr: "currentAnimationId ?s' = None \<and> interval ?s' = None
      \<and> status ?s' = S_error
      \<and> error ?s' = Some (message_or err ''Failed to check animation status'')
      \<and> completions ?s' = completions s @ [?j]
      \<and> polls_started ?s' = polls_started s \<and> in_flight ?s' = ?rest"
    if "a_status animation = ''completed''" and "cb = Some f" and "f ?j = Some err" for f err
    unfolding settle_completed_throws [OF assms that] by simp
  have failed: "currentAnimationId ?s' = None \<and> interval ?s' = None
      \<and> status ?s' = S_error
      \<and> error ?s' = Some (or_else (a_error animation) ''Animation generation failed'')
      \<and> completions ?s' = completions s
      \<and> polls_started ?s' = polls_started s \<and> in_flight ?s' = ?rest"
    if "a_status animation = ''error''"
    unfolding settle_error [OF assms that] by simp
  have ended: "currentAnimationId ?s' = None \<and> interval ?s' = None
      \<and> status ?s' \<noteq> S_generating \<and> polls_started ?s' = polls_started s
      \<and> in_flight ?s' = ?rest"
    if fin: "a_status animation = ''completed'' \<or> a_status animation = ''error''"
  proof (cases "a_status animation = ''error''")
    case True
    from failed [OF True] show ?thesis by simp
  next
    case False
    with fin have comp: "a_status animation = ''completed''" by simp
    show ?thesis
    proof (cases cb)
      case None
      from c_none [OF comp None] show ?thesis by simp
    next
      case (Some f)
      show ?thesis
      proof (cases "f ?j")
        case None
        from c_ret [OF comp Some None] show ?thesis by simp
      next
        case (Some err)
        from c_thr [OF comp \<open>cb = Some f\<close> Some] show ?thesis by simp
      qed
    qed
  qed
  have final: "status (poll_run cb es ?s') = status ?s'
        \<and> error (poll_run cb es ?s') = error ?s'
        \<and> currentAnimationId (poll_run cb es ?s') = None
        \<and> completions (poll_run cb es ?s') = completions ?s'
        \<and> polls_started (poll_run cb es ?s') = polls_started s"
    if fin: "a_status animation = ''completed'' \<or> a_status animation = ''error''"
      and one: "length (in_flight s) = 1" for es
  proof -
    from one assms(2) have gone: "?rest = []"
      by (simp add: only_call_in_flight)
    from ended [OF fin] gone have rest: "at_rest ?s'"
      by (simp add: at_rest_def)
    from ended [OF fin] have more:
        "currentAnimationId ?s' = None" "polls_started ?s' = polls_started s"
      by simp_all
    from poll_run_at_rest [OF rest, of cb es] show ?thesis
      unfolding more .
  qed
  show ?thesis
    unfolding Let_def
  proof (intro conjI)
    show "a_status animation = ''pending'' \<or> a_status animation = ''generating'' \<longrightarrow>
            polling ident ?s' \<and> completions ?s' = completions s \<and> error ?s' = error s"
      by (rule impI) (rule pend)
  next
    show "a_status animation = ''completed'' \<longrightarrow>
            currentAnimationId ?s' = None \<and> interval ?s' = None
            \<and> (cb = None \<longrightarrow>
                  status ?s' = S_completed \<and> error ?s' = error s
                  \<and> completions ?s' = completions s)
            \<and> (\<forall>f. cb = Some f \<and> f ?j = None \<longrightarrow>
                  status ?s' = S_completed \<and> error ?s' = error s
                  \<and> completions ?s' = completions s @ [?j])
            \<and> (\<forall>f err. cb = Some f \<and> f ?j = Some err \<longrightarrow>
                  status ?s' = S_error
                  \<and> error ?s' = Some (message_or err ''Failed to check animation status'')
                  \<and> completions ?s' = completions s @ [?j])"
    proof (rule impI)
      assume comp: "a_status animation = ''completed''"
      have a: "currentAnimationId ?s' = None \<and> interval ?s' = None"
        using ended comp by simp
      have b: "cb = None \<longrightarrow> status ?s' = S_completed \<and> error ?s' = error s
          \<and> completions ?s' = completions s"
      proof (rule impI)
        assume "cb = None"
        from c_none [OF comp this] show "status ?s' = S_completed \<and> error ?s' = error s
          \<and> completions ?s' = completions s" by simp
      qed
      have c: "\<forall>f. cb = Some f \<and> f ?j = None \<longrightarrow>
          status ?s' = S_completed \<and> error ?s' = error s
          \<and> completions ?s' = completions s @ [?j]"
      proof (intro allI impI, elim conjE)
        fix f assume "cb = Some f" and "f ?j = None"
        from c_ret [OF comp this] show "status ?s' = S_completed \<and> error ?s' = error s
          \<and> completions ?s' = completions s @ [?j]" by simp
      qed
      have d: "\<forall>f err. cb = Some f \<and> f ?j = Some err \<longrightarrow>
          status ?s' = S_error
          \<and> error ?s' = Some (message_or err ''Failed to check animation status'')
          \<and> completions ?s' = completions s @ [?j]"
      proof (intro allI impI, elim conjE)
        fix f err assume "cb = Some f" and "f ?j = Some err"
        from c_thr [OF comp this] show "status ?s' = S_error
          \<and> error ?s' = Some (message_or err ''Failed to check animation status'')
          \<and> completions ?s' = completions s @ [?j]" by simp
      qed
      from a b c d show "currentAnimationId ?s' = None \<and> interval ?s' = None
            \<and> (cb = None \<longrightarrow>
                  status ?s' = S_completed \<and> error ?s' = error s
                  \<and> completions ?s' = completions s)
            \<and> (\<forall>f. cb = Some f \<and> f ?j = None \<longrightarrow>
                  status ?s' = S_completed \<and> error ?s' = error s
                  \<and> completions ?s' = completions s @ [?j])
            \<and> (\<forall>f err. cb = Some f \<and> f ?j = Some err \<longrightarrow>
                  status ?s' = S_error
                  \<and> error ?s' = Some (message_or err ''Failed to check animation status'')
                  \<and> completions ?s' = completions s @ [?j])"
        by (simp only: simp_thms)
    qed
  next
    show "a_status animation = ''error'' \<longrightarrow>
            status ?s' = S_error \<and> currentAnimationId ?s' = None \<and> interval ?s' = None
            \<and> error ?s' = Some (or_else (a_error animation) ''Animation generation failed'')
            \<and> completions ?s' = completions s"
    proof (rule impI)
      assume "a_status animation = ''error''"
      from failed [OF this] show "status ?s' = S_error \<and> currentAnimationId ?s' = None
            \<and> interval ?s' = None
            \<and> error ?s' = Some (or_else (a_error animation) ''Animation generation failed'')
            \<and> completions ?s' = completions s" by simp
    qed
  next
    show "(a_status animation = ''completed'' \<or> a_status animation = ''error'')
            \<and> length (in_flight s) = 1 \<longrightarrow>
          (\<forall>es. status (poll_run cb es ?s') = status ?s'
                \<and> error (poll_run cb es ?s') = error ?s'
                \<and> currentAnimationId (poll_run cb es ?s') = None
                \<and> completions (poll_run cb es ?s') = completions ?s'
                \<and> polls_started (poll_run cb es ?s') = polls_started s)"
    proof (intro impI allI, elim conjE)
      fix es
      assume "a_status animation = ''completed'' \<or> a_status animation = ''error''"
        and "length (in_flight s) = 1"
      then show "status (poll_run cb es ?s') = status ?s'
                \<and> error (poll_run cb es ?s') = error ?s'
                \<and> currentAnimationId (poll_run cb es ?s') = None
                \<and> completions (poll_run cb es ?s') = completions ?s'
                \<and> polls_started (poll_run cb es ?s') = polls_started s"
        by (rule final)
    qed
  qed
qed

theorem status_response_mapping_witness:
  "polling ''abc123'' (poll_step (Some (\<lambda>ident. None)) Tick
      (effect \<lparr>currentAnimationId = Some ''abc123'', status = S_generating, error = None,
               mounted = True, effect_deps = (None, S_idle), interval = None,
               in_flight = [], polls_started = 0, completions = []\<rparr>))
   \<and> (let s' = poll_step (Some (\<lambda>ident. None))
          (Settle 0 (Inr \<lparr>a_id = ''abc123'', user_id = ''7'', prompt = ''Draw a circle'',
                         a_status = ''error'', video_path = None,
                         a_error = None, created_at = ''t0'', updated_at = ''t1''\<rparr>))
          (poll_step (Some (\<lambda>ident. None)) Tick
            (effect \<lparr>currentAnimationId = Some ''abc123'', status = S_generating, error = None,
               mounted = True, effect_deps = (None, S_idle), interval = None,
               in_flight = [], polls_started = 0, completions = []\<rparr>))
      in status s' = S_error \<and> error s' = Some ''Animation generation failed''
         \<and> completions s' = []
         \<and> status (poll_run (Some (\<lambda>ident. None)) [Tick, Rerun, Tick, Unmount] s') = S_error)
   \<and> (let s' = poll_step (Some (\<lambda>ident. None))
          (Settle 0 (Inr \<lparr>a_id = ''abc123'', user_id = ''7'', prompt = ''Draw a circle'',
                         a_status = ''completed'', video_path = Some ''/v/abc123.mp4'',
                         a_error = None, created_at = ''t0'', updated_at = ''t1''\<rparr>))
          (poll_step (Some (\<lambda>ident. None)) Tick
            (effect \<lparr>currentAnimationId = Some ''abc123'', status = S_generating, error = None,
               mounted = True, effect_deps = (None, S_idle), interval = None,
               in_flight = [], polls_started = 0, completions = []\<rparr>))
      in status s' = S_completed \<and> error s' = None \<and> completions s' = [''abc123'']
         \<and> interval s' = None
         \<and> polls_started (poll_run (Some (\<lambda>ident. None)) [Tick, Rerun, Tick, Unmount] s') = 1)
   \<and> (let s' = poll_step (Some (\<lambda>ident. None))
          (Settle 0 (Inr \<lparr>a_id = ''abc123'', user_id = ''7'', prompt = ''Draw a circle'',
                         a_status = ''pending'', video_path = None,
                         a_error = None, created_at = ''t0'', updated_at = ''t1''\<rparr>))
          (poll_step (Some (\<lambda>ident. None)) Tick
            (effect \<lparr>currentAnimationId = Some ''abc123'', status = S_generating, error = None,
               mounted = True, effect_deps = (None, S_idle), interval = None,
               in_flight = [], polls_started = 0, completions = []\<rparr>))
      in polling ''abc123'' s' \<and> completions s' = [])"
proof -
  let ?s = "poll_step (Some (\<lambda>ident. None)) Tick
      (effect \<lparr>currentAnimationId = Some ''abc123'', status = S_generating, error = None,
               mounted = True, effect_deps = (None, S_idle), interval = None,
               in_flight = [], polls_started = 0, completions = []\<rparr>)"
  have p: "polling ''abc123'' ?s"
    by (simp add: polling_def effect_def pollStatus_start_def)
  have l: "0 < length (in_flight ?s)"
    by (simp add: effect_def pollStatus_start_def)
  show ?thesis
    using p
      status_response_mapping [OF p l, of "Some (\<lambda>ident. None)"
        "\<lparr>a_id = ''abc123'', user_id = ''7'', prompt = ''Draw a circle'',
          a_status = ''error'', video_path = None,
          a_error = None, created_at = ''t0'', updated_at = ''t1''\<rparr>"]
      status_response_mapping [OF p l, of "Some (\<lambda>ident. None)"
        "\<lparr>a_id = ''abc123'', user_id = ''7'', prompt = ''Draw a circle'',
          a_status = ''completed'', video_path = Some ''/v/abc123.mp4'',
          a_error = None, created_at = ''t0'', updated_at = ''t1''\<rparr>"]
      status_response_mapping [OF p l, of "Some (\<lambda>ident. None)"
        "\<lparr>a_id = ''abc123'', user_id = ''7'', prompt = ''Draw a circle'',
          a_status = ''pending'', video_path = None,
          a_error = None, created_at = ''t0'', updated_at = ''t1''\<rparr>"]
    by (simp add: Let_def or_else_def effect_def cleanup_def pollStatus_start_def
                  pollStatus_resume_def pollStatus_catch_def rerender_def setStatus_def
                  setError_def setCurrentAnimationId_def mapAnimationStatus_def polling_def)
qed

text \<open>
  C4, as the claim states it, fails in one point: the failed state is not terminal when
  a second status call is in flight. After the first call has failed, the late
  \<^verbatim>\<open>pending\<close> answer of the second sets the status back to generating, and a late
  \<^verbatim>\<open>completed\<close> answer sets it to completed and calls the completion callback.
\<close>

theorem late_response_leaves_failed_state:
  "status (poll_run (Some (\<lambda>ident. None))
      [Tick, Tick, Settle 0 (Inl (JsError ''TypeError'' ''Failed to fetch''))]
      (effect \<lparr>currentAnimationId = Some ''abc123'', status = S_generating, error = None,
               mounted = True, effect_deps = (None, S_idle), interval = None,
               in_flight = [], polls_started = 0, completions = []\<rparr>)) = S_error
   \<and> status (poll_run (Some (\<lambda>ident. None))
      [Tick, Tick, Settle 0 (Inl (JsError ''TypeError'' ''Failed to fetch'')),
       Settle 0 (Inr \<lparr>a_id = ''abc123'', user_id = ''7'', prompt = ''Draw a circle'',
                      a_status = ''pending'', video_path = None,
                      a_error = None, created_at = ''t0'', updated_at = ''t0''\<rparr>)]
      (effect \<lparr>currentAnimationId = Some ''abc123'', status = S_generating, error = None,
               mounted = True, effect_deps = (None, S_idle), interval = None,
               in_flight = [], polls_started = 0, completions = []\<rparr>)) = S_generating
   \<and> status (poll_run (Some (\<lambda>ident. None))
      [Tick, Tick, Settle 0 (Inl (JsError ''TypeError'' ''Failed to fetch'')),
       Settle 0 (Inr \<lparr>a_id = ''abc123'', user_id = ''7'', prompt = ''Draw a circle'',
                      a_status = ''completed'', video_path = Some ''/v/abc123.mp4'',
                      a_error = None, created_at = ''t0'', updated_at = ''t1''\<rparr>)]
      (effect \<lparr>currentAnimationId = Some ''abc123'', status = S_generating, error = None,
               mounted = True, effect_deps = (None, S_idle), interval = None,
               in_flight = [], polls_started = 0, completions = []\<rparr>)) = S_completed
   \<and> completions (poll_run (Some (\<lambda>ident. None))
      [Tick, Tick, Settle 0 (Inl (JsError ''TypeError'' ''Failed to fetch'')),
       Settle 0 (Inr \<lparr>a_id = ''abc123'', user_id = ''7'', prompt = ''Draw a circle'',
                      a_status = ''completed'', video_path = Some ''/v/abc123.mp4'',
                      a_error = None, created_at = ''t0'', updated_at = ''t1''\<rparr>)]
      (effect \<lparr>currentAnimationId = Some ''abc123'', status = S_generating, error = None,
               mounted = True, effect_deps = (None, S_idle), interval = None,
               in_flight = [], polls_started = 0, completions = []\<rparr>)) = [''abc123'']"
  by (simp add: effect_def cleanup_def pollStatus_start_def pollStatus_resume_def
                pollStatus_catch_def rerender_def setStatus_def setError_def
                setCurrentAnimationId_def mapAnimationStatus_def message_or_def Let_def)

text \<open>
  C4, amended. When a status call made while polling fails, with no response or with a
  non-2xx response, the poller reaches the failed state with the error's message in
  \<open>error\<close> and the timer is cleared. Whatever happens to the poller afterwards (ticks,
  late responses, unmounting, a rerun of the effect), no further status call is started:
  the failed call is never retried. When the failed call was the only one in flight,
  the failed state is terminal: no later poller event changes the status, the error or
  the callbacks made.
\<close>

theorem status_failure_is_terminal:
  assumes "polling ident s" and "i < length (in_flight s)"
    and "out = Fetch_Rejected e \<or> out = Resp_NotOk st body"
  shows "let s' = poll_step cb (Settle i (snd (checkStatus a out h))) s in
           (\<exists>err. snd (checkStatus a out h) = Inl err
                  \<and> error s' = Some (message_or err ''Failed to check animation status''))
         \<and> status s' = S_error \<and> currentAnimationId s' = None \<and> interval s' = None
         \<and> completions s' = completions s
         \<and> (\<forall>es. polls_started (poll_run cb es s') = polls_started s)
         \<and> (length (in_flight s) = 1 \<longrightarrow>
              (\<forall>es. status (poll_run cb es s') = S_error
                    \<and> error (poll_run cb es s') = error s'
                    \<and> currentAnimationId (poll_run cb es s') = None
                    \<and> completions (poll_run cb es s') = completions s))"
proof -
  from assms(3) obtain err where err: "snd (checkStatus a out h) = Inl err"
    using checkStatus_failure by blast
  let ?s' = "poll_step cb (Settle i (Inl err)) s"
  from assms(1,2) have now: "error ?s' = Some (message_or err ''Failed to check animation status'')
      \<and> status ?s' = S_error \<and> currentAnimationId ?s' = None \<and> interval ?s' = None
      \<and> completions ?s' = completions s \<and> polls_started ?s' = polls_started s"
    by (simp add: polling_def pollStatus_resume_def pollStatus_catch_def rerender_def
                  effect_def cleanup_def setStatus_def setError_def setCurrentAnimationId_def)
  then have "no_job ?s'"
    by (simp add: no_job_def)
  then have polls: "polls_started (poll_run cb es ?s') = polls_started s" for es
    using poll_run_no_job [of ?s' cb es] now by simp
  have final: "status (poll_run cb es ?s') = S_error
        \<and> error (poll_run cb es ?s') = error ?s'
        \<and> currentAnimationId (poll_run cb es ?s') = None
        \<and> completions (poll_run cb es ?s') = completions s"
    if one: "length (in_flight s) = 1" for es
  proof -
    from one assms(2) have gone: "take i (in_flight s) @ drop (Suc i) (in_flight s) = []"
      by (simp add: only_call_in_flight)
    from assms(1,2) gone have "in_flight ?s' = []"
      by (simp add: polling_def pollStatus_resume_def pollStatus_catch_def rerender_def
                    effect_def cleanup_def setStatus_def setError_def
                    setCurrentAnimationId_def)
    with now have "at_rest ?s'"
      by (simp add: at_rest_def)
    then show ?thesis
      using poll_run_at_rest [of ?s' cb es] now by simp
  qed
  from now polls final err show ?thesis
    unfolding Let_def by auto
qed

theorem status_failure_is_terminal_witness:
  "polling ''abc123'' (poll_step (Some (\<lambda>ident. None)) Tick
      (effect \<lparr>currentAnimationId = Some ''abc123'', status = S_generating, error = None,
               mounted = True, effect_deps = (None, S_idle), interval = None,
               in_flight = [], polls_started = 0, completions = []\<rparr>))
   \<and> (let s' = poll_step (Some (\<lambda>ident. None))
          (Settle 0 (snd (checkStatus
             \<lparr>storage = Map.empty(''auth_token'' \<mapsto> ''tok''), user = None, isAuthenticated = True\<rparr>
             (Fetch_Rejected (JsError ''TypeError'' ''Failed to fetch''))
             \<lparr>animations = [], loading = False, h_error = None\<rparr>)))
          (poll_step (Some (\<lambda>ident. None)) Tick
            (effect \<lparr>currentAnimationId = Some ''abc123'', status = S_generating, error = None,
               mounted = True, effect_deps = (None, S_idle), interval = None,
               in_flight = [], polls_started = 0, completions = []\<rparr>))
      in status s' = S_error \<and> error s' = Some ''Failed to fetch'' \<and> interval s' = None
         \<and> polls_started (poll_run (Some (\<lambda>ident. None)) [Tick, Rerun, Tick] s') = 1
         \<and> status (poll_run (Some (\<lambda>ident. None)) [Tick, Rerun, Tick] s') = S_error)"
proof -
  let ?s = "poll_step (Some (\<lambda>ident. None)) Tick
      (effect \<lparr>currentAnimationId = Some ''abc123'', status = S_generating, error = None,
               mounted = True, effect_deps = (None, S_idle), interval = None,
               in_flight = [], polls_started = 0, completions = []\<rparr>)"
  have p: "polling ''abc123'' ?s"
    by (simp add: polling_def effect_def pollStatus_start_def)
  have l: "0 < length (in_flight ?s)"
    by (simp add: effect_def pollStatus_start_def)
  have c: "snd (checkStatus
             \<lparr>storage = Map.empty(''auth_token'' \<mapsto> ''tok''), user = None, isAuthenticated = True\<rparr>
             (Fetch_Rejected (JsError ''TypeError'' ''Failed to fetch''))
             \<lparr>animations = [], loading = False, h_error = None\<rparr>)
           = Inl (JsError ''TypeError'' ''Failed to fetch'')"
    by (simp add: checkStatus_def getToken_def getItem_def)
  have o: "Fetch_Rejected (JsError ''TypeError'' ''Failed to fetch'')
             = (Fetch_Rejected (JsError ''TypeError'' ''Failed to fetch'') :: animation fetch_outcome)
           \<or> Fetch_Rejected (JsError ''TypeError'' ''Failed to fetch'') = Resp_NotOk 0 (Inr None)"
    by simp
  show ?thesis
    using p c status_failure_is_terminal [OF p l o, of "Some (\<lambda>ident. None)"
        "\<lparr>storage = Map.empty(''auth_token'' \<mapsto> ''tok''), user = None, isAuthenticated = True\<rparr>"
        "\<lparr>animations = [], loading = False, h_error = None\<rparr>"]
    by (simp add: Let_def message_or_def effect_def cleanup_def pollStatus_start_def
                  pollStatus_resume_def pollStatus_catch_def rerender_def setStatus_def
                  setError_def setCurrentAnimationId_def)
qed

end
